theory Spec2Isabelle
  imports Complex_Main
begin

section \<open>JavaScript values\<close>

text \<open>
  The values the proxy handles are the results of \<^verbatim>\<open>JSON.parse\<close> and of property
  reads on them. \<open>JUndefined\<close> is the result of reading an absent property; it never
  occurs inside a parsed document. An object keeps its members in source order; where a
  key is repeated the last member wins, as in JavaScript. A string is a list of
  characters, each standing for one code unit.
\<close>

datatype jsval =
    JUndefined
  | JNull
  | JBool bool
  | JNumber rat
  | JString string
  | JArray "jsval list"
  | JObject "(string \<times> jsval) list"

text \<open>Truthiness as used by \<^verbatim>\<open>if (x)\<close>, \<^verbatim>\<open>x || y\<close> and \<^verbatim>\<open>x && y\<close>.\<close>

fun truthy :: "jsval \<Rightarrow> bool" where
  "truthy JUndefined = False"
| "truthy JNull = False"
| "truthy (JBool b) = b"
| "truthy (JNumber n) = (n \<noteq> 0)"
| "truthy (JString s) = (s \<noteq> [])"
| "truthy (JArray xs) = True"
| "truthy (JObject kvs) = True"

definition js_or :: "jsval \<Rightarrow> jsval \<Rightarrow> jsval" where
  "js_or a b = (if truthy a then a else b)"

text \<open>
  \<^verbatim>\<open>v.k\<close> for the property names this program reads (\<^verbatim>\<open>type\<close>, \<^verbatim>\<open>content\<close>,
  \<^verbatim>\<open>message\<close>, \<^verbatim>\<open>session_id\<close>, ...): none of them is inherited from a prototype, so
  on an object the read is a lookup among its own members and on a number, boolean,
  string or array it is \<^verbatim>\<open>undefined\<close>. Reading a property of \<^verbatim>\<open>null\<close> or
  \<^verbatim>\<open>undefined\<close> throws a TypeError: \<open>None\<close>.
\<close>

fun get :: "jsval \<Rightarrow> string \<Rightarrow> jsval option" where
  "get JUndefined k = None"
| "get JNull k = None"
| "get (JObject kvs) k = (case map_of (rev kvs) k of None \<Rightarrow> Some JUndefined | Some v \<Rightarrow> Some v)"
| "get v k = Some JUndefined"

text \<open>\<^verbatim>\<open>v?.k\<close>: \<^verbatim>\<open>undefined\<close> when \<open>v\<close> is \<^verbatim>\<open>null\<close> or \<^verbatim>\<open>undefined\<close>, never throws.\<close>

definition get_opt :: "jsval \<Rightarrow> string \<Rightarrow> jsval" where
  "get_opt v k = (case get v k of None \<Rightarrow> JUndefined | Some x \<Rightarrow> x)"

text \<open>\<^verbatim>\<open>v.k\<close> on a value already known not to be \<^verbatim>\<open>null\<close> or \<^verbatim>\<open>undefined\<close>.\<close>

abbreviation fld :: "jsval \<Rightarrow> string \<Rightarrow> jsval" where
  "fld v k \<equiv> get_opt v k"

definition is_nullish :: "jsval \<Rightarrow> bool" where
  "is_nullish v = (v = JNull \<or> v = JUndefined)"

section \<open>JSON.parse\<close>

text \<open>
  The built-in the decoders call on every line, written out so that the examples can be
  evaluated: a lexer for the tokens of the JSON grammar and a pushdown automaton for
  its values. A number is kept as the exact rational its literal denotes (the rounding to
  a double is not modelled). An escape \<^verbatim>\<open>\uXXXX\<close> above \<^verbatim>\<open>00FF\<close> has no character in
  this model and is rejected. The theorems below about arbitrary lines do not depend on
  how a line is parsed, only on the parsed value.
\<close>

datatype token =
    TLBrace | TRBrace | TLBrack | TRBrack | TColon | TComma
  | TString string | TNumber rat | TTrue | TFalse | TNull

definition is_json_ws :: "char \<Rightarrow> bool" where
  "is_json_ws c = (c = CHR '' '' \<or> c = CHR 0x09 \<or> c = CHR 0x0A \<or> c = CHR 0x0D)"

definition code_unit :: "char \<Rightarrow> nat" where
  "code_unit c = of_char c"

definition is_digit :: "char \<Rightarrow> bool" where
  "is_digit c = (48 \<le> code_unit c \<and> code_unit c \<le> 57)"

definition digit_val :: "char \<Rightarrow> nat" where
  "digit_val c = code_unit c - 48"

definition hex_val :: "char \<Rightarrow> nat option" where
  "hex_val c =
     (if 48 \<le> code_unit c \<and> code_unit c \<le> 57 then Some (code_unit c - 48)
      else if 97 \<le> code_unit c \<and> code_unit c \<le> 102 then Some (code_unit c - 87)
      else if 65 \<le> code_unit c \<and> code_unit c \<le> 70 then Some (code_unit c - 55)
      else None)"

definition unescape :: "char \<Rightarrow> char option" where
  "unescape e =
     (if e = CHR 0x22 then Some (CHR 0x22)
      else if e = CHR 0x5C then Some (CHR 0x5C)
      else if e = CHR ''/'' then Some (CHR ''/'')
      else if e = CHR ''b'' then Some (CHR 0x08)
      else if e = CHR ''f'' then Some (CHR 0x0C)
      else if e = CHR ''n'' then Some (CHR 0x0A)
      else if e = CHR ''r'' then Some (CHR 0x0D)
      else if e = CHR ''t'' then Some (CHR 0x09)
      else None)"

definition hex4 :: "char \<Rightarrow> char \<Rightarrow> char \<Rightarrow> char \<Rightarrow> nat option" where
  "hex4 a b c d =
     (case (hex_val a, hex_val b, hex_val c, hex_val d) of
        (Some w, Some x, Some y, Some z) \<Rightarrow> Some (((w * 16 + x) * 16 + y) * 16 + z)
      | _ \<Rightarrow> None)"

definition with_char :: "char \<Rightarrow> (string \<times> string) option \<Rightarrow> (string \<times> string) option" where
  "with_char c r = (case r of None \<Rightarrow> None | Some (s, rest) \<Rightarrow> Some (c # s, rest))"

fun lex_string :: "string \<Rightarrow> (string \<times> string) option" where
  "lex_string [] = None"
| "lex_string (c # cs) =
     (if c = CHR 0x22 then Some ([], cs)
      else if c = CHR 0x5C then
        (case cs of
           [] \<Rightarrow> None
         | e # cs1 \<Rightarrow>
             if e = CHR ''u'' then
               (case cs1 of
                  h1 # h2 # h3 # h4 # cs2 \<Rightarrow>
                    (case hex4 h1 h2 h3 h4 of
                       None \<Rightarrow> None
                     | Some n \<Rightarrow> if n < 256 then with_char (char_of n) (lex_string cs2) else None)
                | _ \<Rightarrow> None)
             else (case unescape e of
                     None \<Rightarrow> None
                   | Some x \<Rightarrow> with_char x (lex_string cs1)))
      else if code_unit c < 32 then None
      else with_char c (lex_string cs))"


lemma with_char_shorter:
  "with_char c r = Some (s, rest) \<Longrightarrow> \<exists>s'. r = Some (s', rest)"
  by (auto simp: with_char_def split: option.splits)

lemma lex_string_shorter: "lex_string cs = Some (s, rest) \<Longrightarrow> length rest < length cs"
proof (induction cs arbitrary: s rule: lex_string.induct)
  case 1
  then show ?case by simp
next
  case (2 c cs)
  show ?case
    using "2.prems" "2.IH"
    by (fastforce simp: less_Suc_eq split: if_splits list.splits option.splits
          dest!: with_char_shorter)
qed

text \<open>The value of a digit string, most significant digit first.\<close>

definition digits_val :: "string \<Rightarrow> nat" where
  "digits_val ds = foldl (\<lambda>n d. 10 * n + digit_val d) 0 ds"

text \<open>
  A number literal: \<^verbatim>\<open>-? (0 | [1-9][0-9]*) (. [0-9]+)? ([eE] [+-]? [0-9]+)?\<close>. The three
  functions read the exponent, the fraction and the whole literal, and return the value
  read with the rest of the text.
\<close>

definition lex_exponent :: "string \<Rightarrow> (int \<times> string) option" where
  "lex_exponent cs =
     (case cs of
        [] \<Rightarrow> Some (0, cs)
      | e # cs1 \<Rightarrow>
          if e = CHR ''e'' \<or> e = CHR ''E'' then
            (let neg = (cs1 \<noteq> [] \<and> hd cs1 = CHR ''-'');
                 cs2 = (if cs1 \<noteq> [] \<and> (hd cs1 = CHR ''-'' \<or> hd cs1 = CHR ''+'') then tl cs1 else cs1);
                 ds = takeWhile is_digit cs2
             in if ds = [] then None
                else Some (if neg then - int (digits_val ds) else int (digits_val ds),
                           dropWhile is_digit cs2))
          else Some (0, cs))"

definition lex_fraction :: "string \<Rightarrow> (rat \<times> string) option" where
  "lex_fraction cs =
     (case cs of
        [] \<Rightarrow> Some (0, cs)
      | d # cs1 \<Rightarrow>
          if d = CHR ''.'' then
            (let ds = takeWhile is_digit cs1
             in if ds = [] then None
                else Some (of_nat (digits_val ds) / of_nat (10 ^ length ds), dropWhile is_digit cs1))
          else Some (0, cs))"

definition lex_number :: "string \<Rightarrow> (rat \<times> string) option" where
  "lex_number cs =
     (let neg = (cs \<noteq> [] \<and> hd cs = CHR ''-'');
          cs1 = (if neg then tl cs else cs);
          ds = takeWhile is_digit cs1
      in if ds = [] \<or> (hd ds = CHR ''0'' \<and> length ds > 1) then None
         else case lex_fraction (dropWhile is_digit cs1) of
                None \<Rightarrow> None
              | Some (f, cs2) \<Rightarrow>
                  (case lex_exponent cs2 of
                     None \<Rightarrow> None
                   | Some (e, cs3) \<Rightarrow>
                       let m = of_nat (digits_val ds) + f;
                           v = (if e < 0 then m / of_nat (10 ^ nat (- e)) else m * of_nat (10 ^ nat e))
                       in Some (if neg then - v else v, cs3)))"

lemma lex_exponent_shorter: "lex_exponent cs = Some (e, rest) \<Longrightarrow> length rest \<le> length cs"
proof -
  have d: "length (dropWhile is_digit xs) \<le> length xs" for xs
    by (simp add: length_dropWhile_le)
  have t: "length (dropWhile is_digit (tl xs)) \<le> length xs" for xs
    using d [of "tl xs"] by (cases xs) auto
  assume "lex_exponent cs = Some (e, rest)"
  then show ?thesis
    using d t
    by (auto simp: lex_exponent_def Let_def le_Suc_eq split: list.splits if_splits)
qed

lemma lex_fraction_shorter: "lex_fraction cs = Some (f, rest) \<Longrightarrow> length rest \<le> length cs"
proof -
  have d: "length (dropWhile is_digit xs) \<le> length xs" for xs
    by (simp add: length_dropWhile_le)
  assume "lex_fraction cs = Some (f, rest)"
  then show ?thesis
    using d
    by (auto simp: lex_fraction_def Let_def le_Suc_eq split: list.splits if_splits)
qed

lemma lex_number_shorter:
  assumes "lex_number cs = Some (v, rest)"
  shows "length rest < length cs"
proof -
  define cs1 where "cs1 = (if cs \<noteq> [] \<and> hd cs = CHR ''-'' then tl cs else cs)"
  have c1: "length cs1 \<le> length cs"
    by (simp add: cs1_def)
  from assms have ne: "takeWhile is_digit cs1 \<noteq> []"
    by (auto simp: lex_number_def Let_def cs1_def split: if_splits)
  have "length (takeWhile is_digit cs1) + length (dropWhile is_digit cs1) = length cs1"
    by (metis length_append takeWhile_dropWhile_id)
  with ne have d: "length (dropWhile is_digit cs1) < length cs1"
    by (cases "takeWhile is_digit cs1") auto
  from assms obtain f cs2 e where
    f: "lex_fraction (dropWhile is_digit cs1) = Some (f, cs2)" and
    e: "lex_exponent cs2 = Some (e, rest)"
    by (auto simp: lex_number_def Let_def cs1_def split: if_splits option.splits)
  from lex_fraction_shorter [OF f] lex_exponent_shorter [OF e] d c1
  show ?thesis by linarith
qed

text \<open>The tokens of a text; \<open>None\<close> when some part of it is no token.\<close>

definition with_token :: "token \<Rightarrow> token list option \<Rightarrow> token list option" where
  "with_token t r = (case r of None \<Rightarrow> None | Some ts \<Rightarrow> Some (t # ts))"

function lex :: "string \<Rightarrow> token list option" where
  "lex [] = Some []"
| "lex (c # cs) =
     (if is_json_ws c then lex cs
      else if c = CHR ''{'' then with_token TLBrace (lex cs)
      else if c = CHR ''}'' then with_token TRBrace (lex cs)
      else if c = CHR ''['' then with_token TLBrack (lex cs)
      else if c = CHR '']'' then with_token TRBrack (lex cs)
      else if c = CHR '':'' then with_token TColon (lex cs)
      else if c = CHR '','' then with_token TComma (lex cs)
      else if c = CHR 0x22 then
        (case lex_string cs of
           None \<Rightarrow> None
         | Some (s, rest) \<Rightarrow> with_token (TString s) (lex rest))
      else if c = CHR ''-'' \<or> is_digit c then
        (case lex_number (c # cs) of
           None \<Rightarrow> None
         | Some (v, rest) \<Rightarrow> with_token (TNumber v) (lex rest))
      else if take 4 (c # cs) = ''true'' then with_token TTrue (lex (drop 3 cs))
      else if take 5 (c # cs) = ''false'' then with_token TFalse (lex (drop 4 cs))
      else if take 4 (c # cs) = ''null'' then with_token TNull (lex (drop 3 cs))
      else None)"
  by pat_completeness auto
termination
proof (relation "measure length", goal_cases)
  case (9 c cs x2 s rest)
  then show ?case using lex_string_shorter [of cs s rest] by simp
next
  case (10 c cs x2 v rest)
  then show ?case using lex_number_shorter [of "c # cs" v rest] by simp
qed auto

text \<open>
  The grammar over tokens, as a pushdown automaton. A frame of the stack is an array
  or an object under construction, with its elements or members so far in reverse
  order; \<open>FMember\<close> is an object whose next member has its key and awaits its value.
\<close>

datatype frame =
    FArray "jsval list"
  | FObject "(string \<times> jsval) list"
  | FMember "(string \<times> jsval) list" string

datatype pstate =
    PValue
  | PValueOrClose
  | PKeyOrClose
  | PKey
  | PColon
  | PAfterValue
  | PDone jsval

text \<open>A value is complete: it goes into the container on top of the stack.\<close>

fun reduce :: "jsval \<Rightarrow> frame list \<Rightarrow> (pstate \<times> frame list) option" where
  "reduce v [] = Some (PDone v, [])"
| "reduce v (FArray es # st) = Some (PAfterValue, FArray (v # es) # st)"
| "reduce v (FMember ms k # st) = Some (PAfterValue, FObject ((k, v) # ms) # st)"
| "reduce v (FObject ms # st) = None"

definition scalar :: "token \<Rightarrow> jsval option" where
  "scalar t =
     (case t of
        TString s \<Rightarrow> Some (JString s)
      | TNumber n \<Rightarrow> Some (JNumber n)
      | TTrue \<Rightarrow> Some (JBool True)
      | TFalse \<Rightarrow> Some (JBool False)
      | TNull \<Rightarrow> Some JNull
      | _ \<Rightarrow> None)"

definition begin_value :: "token \<Rightarrow> frame list \<Rightarrow> (pstate \<times> frame list) option" where
  "begin_value t st =
     (if t = TLBrack then Some (PValueOrClose, FArray [] # st)
      else if t = TLBrace then Some (PKeyOrClose, FObject [] # st)
      else case scalar t of None \<Rightarrow> None | Some v \<Rightarrow> reduce v st)"

definition begin_member :: "token \<Rightarrow> frame list \<Rightarrow> (pstate \<times> frame list) option" where
  "begin_member t st =
     (case (t, st) of
        (TString k, FObject ms # st1) \<Rightarrow> Some (PColon, FMember ms k # st1)
      | _ \<Rightarrow> None)"

definition close_container :: "token \<Rightarrow> frame list \<Rightarrow> (pstate \<times> frame list) option" where
  "close_container t st =
     (case (t, st) of
        (TRBrack, FArray es # st1) \<Rightarrow> reduce (JArray (rev es)) st1
      | (TRBrace, FObject ms # st1) \<Rightarrow> reduce (JObject (rev ms)) st1
      | _ \<Rightarrow> None)"

fun pstep :: "pstate \<Rightarrow> frame list \<Rightarrow> token \<Rightarrow> (pstate \<times> frame list) option" where
  "pstep PValue st t = begin_value t st"
| "pstep PValueOrClose st t = (if t = TRBrack then close_container t st else begin_value t st)"
| "pstep PKeyOrClose st t = (if t = TRBrace then close_container t st else begin_member t st)"
| "pstep PKey st t = begin_member t st"
| "pstep PColon st t = (if t = TColon then Some (PValue, st) else None)"
| "pstep PAfterValue st t =
     (if t = TComma then
        (case st of
           FArray es # st1 \<Rightarrow> Some (PValue, st)
         | FObject ms # st1 \<Rightarrow> Some (PKey, st)
         | _ \<Rightarrow> None)
      else close_container t st)"
| "pstep (PDone v) st t = None"

fun prun :: "pstate \<Rightarrow> frame list \<Rightarrow> token list \<Rightarrow> jsval option" where
  "prun p st [] = (case p of PDone v \<Rightarrow> Some v | _ \<Rightarrow> None)"
| "prun p st (t # ts) = (case pstep p st t of None \<Rightarrow> None | Some (p', st') \<Rightarrow> prun p' st' ts)"

text \<open>\<^verbatim>\<open>JSON.parse(text)\<close>: the value, or \<open>None\<close> for a SyntaxError.\<close>

definition JSON_parse :: "string \<Rightarrow> jsval option" where
  "JSON_parse text = (case lex text of None \<Rightarrow> None | Some ts \<Rightarrow> prun PValue [] ts)"

section \<open>Events (types/events.ts)\<close>

text \<open>
  The tagged union \<^verbatim>\<open>ClaudeEvent\<close>. The last argument of every constructor is the
  \<^verbatim>\<open>timestamp\<close>. Field values are whatever the producing code stores: the
  TypeScript types say \<^verbatim>\<open>string\<close>, the producers store values read from parsed
  JSON, so the fields are \<open>jsval\<close>; an optional field that is absent is \<open>JUndefined\<close>.
\<close>

datatype event =
    ConnectedEvent string nat
  | ThinkingEvent jsval nat
  | ToolUseEvent jsval jsval nat
  | ToolResultEvent jsval jsval nat
  | MessageEvent jsval nat
  | StatusEvent string string nat
  | ErrorEvent jsval jsval nat
  | CompletedEvent jsval nat
  | RawOutputEvent jsval bool nat

text \<open>The \<^verbatim>\<open>type\<close> field of an event.\<close>

fun event_type :: "event \<Rightarrow> string" where
  "event_type (ConnectedEvent c t) = ''connected''"
| "event_type (ThinkingEvent c t) = ''thinking''"
| "event_type (ToolUseEvent n i t) = ''tool_use''"
| "event_type (ToolResultEvent c s t) = ''tool_result''"
| "event_type (MessageEvent c t) = ''message''"
| "event_type (StatusEvent s d t) = ''status''"
| "event_type (ErrorEvent e s t) = ''error''"
| "event_type (CompletedEvent s t) = ''completed''"
| "event_type (RawOutputEvent c a t) = ''raw_output''"

section \<open>ClaudeManager (managers/claude-manager.ts)\<close>

record ClaudeManagerConfig =
  claudePath :: string
  workingDirectory :: string
  args :: "string list option"

text \<open>
  The fields of the class. \<open>currentProcess\<close> holds the handle of the last spawned
  child (its pid), \<open>None\<close> for \<^verbatim>\<open>null\<close>. \<open>sessionId\<close> is \<open>JNull\<close> for \<^verbatim>\<open>null\<close>;
  it is assigned from parsed output, so it can hold any value.
\<close>

record ClaudeManager =
  config :: ClaudeManagerConfig
  currentProcess :: "nat option"
  sessionId :: jsval
  isProcessing :: bool
  isStarted :: bool
  startTime :: nat
  lastActivity :: nat

text \<open>
  What a method does to the outside: events handed to the listeners of the emitter
  (\<^verbatim>\<open>this.emit(channel, event)\<close>; the listeners are taken not to throw), the child
  process it spawns, what it writes to the child's stdin, the signals it sends, and the
  copies of child output it writes to its own stdout and stderr. Calls of the logger
  are not modelled.
\<close>

datatype effect =
    Emit string event
  | Spawn string "jsval list" string
  | StdinWrite string
  | StdinEnd
  | Kill nat string
  | TerminalOut string
  | TerminalErr string

datatype js_error = Error string | TypeError | SyntaxError

definition new_ClaudeManager :: "ClaudeManagerConfig \<Rightarrow> ClaudeManager" where
  "new_ClaudeManager cfg =
     \<lparr>config = cfg, currentProcess = None, sessionId = JNull, isProcessing = False,
      isStarted = False, startTime = 0, lastActivity = 0\<rparr>"

text \<open>A configuration as \<^verbatim>\<open>ProxyServer.start\<close> passes it: no extra arguments.\<close>

definition proxy_config :: ClaudeManagerConfig where
  "proxy_config = \<lparr>claudePath = ''claude'', workingDirectory = ''/workspace'', args = None\<rparr>"

definition start :: "ClaudeManager \<Rightarrow> nat \<Rightarrow> ClaudeManager \<times> effect list" where
  "start m now =
     (m\<lparr>startTime := now, lastActivity := now, isStarted := True\<rparr>,
      [Emit ''status'' (StatusEvent ''started'' ''Claude CLI manager ready (print mode)'' now)])"

definition isAlive :: "ClaudeManager \<Rightarrow> bool" where
  "isAlive m = isStarted m"

definition isBusy :: "ClaudeManager \<Rightarrow> bool" where
  "isBusy m = isProcessing m"

definition getSessionId :: "ClaudeManager \<Rightarrow> jsval" where
  "getSessionId m = sessionId m"

text \<open>The argument vector \<^verbatim>\<open>sendMessage\<close> builds before it spawns: the fixed flags, the
  configured extra arguments (\<^verbatim>\<open>this.config.args || []\<close>), and the continuation flag with
  the session id when one is stored.\<close>

definition fixed_flags :: "string list" where
  "fixed_flags = [''--print'', ''--output-format'', ''stream-json'', ''--verbose'',
                  ''--permission-mode'', ''bypassPermissions'']"

definition extra_args :: "ClaudeManagerConfig \<Rightarrow> string list" where
  "extra_args cfg = (case args cfg of None \<Rightarrow> [] | Some extra \<Rightarrow> extra)"

definition build_args :: "ClaudeManager \<Rightarrow> jsval list" where
  "build_args m =
     map JString (fixed_flags @ extra_args (config m))
     @ (if truthy (sessionId m) then [JString ''--continue'', sessionId m] else [])"

text \<open>
  \<^verbatim>\<open>sendMessage(message)\<close>. \<open>now\<close> is the reading of \<^verbatim>\<open>Date.now()\<close> during the
  call, here and in every function below. \<open>child\<close> is what \<^verbatim>\<open>spawn\<close> returns: the pid of
  the new process and whether it has a stdin stream (\<^verbatim>\<open>spawn\<close> is taken to return; a
  failure to launch arrives later as the child's \<^verbatim>\<open>error\<close> event). The result is the
  state after the call, the effects of the call in order, and \<open>Inl\<close> the thrown error or
  \<open>Inr ()\<close> for a normal return. The handlers the method installs on the child are the
  functions \<open>on_stdout_data\<close>, \<open>on_stderr_data\<close>, \<open>on_exit\<close> and \<open>on_error\<close> below.
\<close>

definition sendMessage ::
  "ClaudeManager \<Rightarrow> nat \<Rightarrow> nat \<times> bool \<Rightarrow> string \<Rightarrow> ClaudeManager \<times> effect list \<times> (js_error + unit)"
where
  "sendMessage m now child message =
     (if isProcessing m then
        (m, [], Inl (Error ''Claude is currently processing another message''))
      else
        let m1 = m\<lparr>lastActivity := now, isProcessing := True\<rparr>;
            argv = build_args m1;
            m2 = m1\<lparr>currentProcess := Some (fst child)\<rparr>
        in (m2,
            [Spawn (claudePath (config m)) argv (workingDirectory (config m))]
            @ (if snd child then [StdinWrite message, StdinEnd] else []),
            Inr ()))"

text \<open>Decimal rendering of a number in a template string.\<close>

function string_of_nat :: "nat \<Rightarrow> string" where
  "string_of_nat n =
     (if n < 10 then [char_of (48 + n)]
      else string_of_nat (n div 10) @ [char_of (48 + n mod 10)])"
  by pat_completeness auto
termination
  by (relation "measure id") auto

declare string_of_nat.simps [simp del]

definition string_of_int :: "int \<Rightarrow> string" where
  "string_of_int i = (if i < 0 then ''-'' @ string_of_nat (nat (- i)) else string_of_nat (nat i))"

text \<open>\<^verbatim>\<open>`${code}`\<close> for the exit code: a number, or \<^verbatim>\<open>null\<close> when a signal ended the child.\<close>

definition string_of_code :: "int option \<Rightarrow> string" where
  "string_of_code code = (case code of None \<Rightarrow> ''null'' | Some c \<Rightarrow> string_of_int c)"

text \<open>The handler of the child's \<^verbatim>\<open>exit\<close> event.\<close>

definition on_exit ::
  "ClaudeManager \<Rightarrow> nat \<Rightarrow> int option \<Rightarrow> string option \<Rightarrow> ClaudeManager \<times> effect list"
where
  "on_exit m now code signal =
     (let m1 = m\<lparr>isProcessing := False\<rparr>
      in if code = Some 0 then (m1, [Emit ''event'' (CompletedEvent JUndefined now)])
         else (m1, [Emit ''event''
                 (ErrorEvent (JString (''Claude exited with code '' @ string_of_code code))
                    JUndefined now)]))"

text \<open>The handler of the child's \<^verbatim>\<open>error\<close> event; the arguments are the error's
  \<^verbatim>\<open>message\<close> and \<^verbatim>\<open>stack\<close>.\<close>

definition on_error ::
  "ClaudeManager \<Rightarrow> nat \<Rightarrow> string \<Rightarrow> jsval \<Rightarrow> ClaudeManager \<times> effect list"
where
  "on_error m now msg stack =
     (m\<lparr>isProcessing := False\<rparr>, [Emit ''event'' (ErrorEvent (JString msg) stack now)])"

definition on_stderr_data :: "ClaudeManager \<Rightarrow> string \<Rightarrow> ClaudeManager \<times> effect list" where
  "on_stderr_data m chunk = (m, [TerminalErr chunk])"

text \<open>The events a step hands to the listeners of the \<^verbatim>\<open>event\<close> channel, in order.\<close>

fun emitted :: "effect list \<Rightarrow> event list" where
  "emitted [] = []"
| "emitted (Emit ch e # fx) = (if ch = ''event'' then e # emitted fx else emitted fx)"
| "emitted (x # fx) = emitted fx"

text \<open>The processes a step spawns.\<close>

fun spawned :: "effect list \<Rightarrow> (string \<times> jsval list \<times> string) list" where
  "spawned [] = []"
| "spawned (Spawn p a d # fx) = (p, a, d) # spawned fx"
| "spawned (x # fx) = spawned fx"

subsection \<open>Decoding the child's output\<close>

text \<open>\<^verbatim>\<open>s.split("\n")\<close>: the pieces between newlines; a text with \<open>n\<close> newlines has \<open>n + 1\<close> pieces.\<close>

fun split_nl :: "string \<Rightarrow> string list" where
  "split_nl [] = [[]]"
| "split_nl (c # cs) =
     (if c = CHR 0x0A then [] # split_nl cs
      else case split_nl cs of
             [] \<Rightarrow> [[c]]
           | l # ls \<Rightarrow> (c # l) # ls)"

text \<open>\<^verbatim>\<open>s.trim()\<close>: white space and line terminators removed at both ends.\<close>

definition is_js_space :: "char \<Rightarrow> bool" where
  "is_js_space c = (code_unit c \<in> {9, 10, 11, 12, 13, 32, 160})"

definition trim :: "string \<Rightarrow> string" where
  "trim s = rev (dropWhile is_js_space (rev (dropWhile is_js_space s)))"

text \<open>
  \<^verbatim>\<open>for (const x of v)\<close>: the elements of an array, the characters of a string; any
  other value is not iterable and the loop throws a TypeError (\<open>None\<close>).
\<close>

definition iterate :: "jsval \<Rightarrow> jsval list option" where
  "iterate v =
     (case v of
        JArray xs \<Rightarrow> Some xs
      | JString s \<Rightarrow> Some (map (\<lambda>c. JString [c]) s)
      | _ \<Rightarrow> None)"

text \<open>
  \<^verbatim>\<open>contentBlockToEvent(block)\<close>: \<open>Inr None\<close> is the returned \<^verbatim>\<open>null\<close>, \<open>Inl\<close> the
  TypeError of reading \<^verbatim>\<open>block.type\<close> when the block is \<^verbatim>\<open>null\<close>.
\<close>

definition contentBlockToEvent :: "nat \<Rightarrow> jsval \<Rightarrow> js_error + event option" where
  "contentBlockToEvent timestamp block =
     (if is_nullish block then Inl TypeError
      else if fld block ''type'' = JString ''thinking'' then
        Inr (Some (ThinkingEvent (js_or (fld block ''thinking'') (JString [])) timestamp))
      else if fld block ''type'' = JString ''text'' then
        Inr (Some (MessageEvent (js_or (fld block ''text'') (JString [])) timestamp))
      else if fld block ''type'' = JString ''tool_use'' then
        Inr (Some (ToolUseEvent (js_or (fld block ''name'') (JString []))
                     (js_or (fld block ''input'') (JObject [])) timestamp))
      else Inr None)"

text \<open>\<^verbatim>\<open>ClaudeManager.jsonToEvent(data)\<close>, the fallback for records of other formats.\<close>

definition jsonToEvent :: "nat \<Rightarrow> jsval \<Rightarrow> js_error + event option" where
  "jsonToEvent timestamp data =
     (if is_nullish data then Inl TypeError
      else if fld data ''type'' = JString ''thinking'' \<or> truthy (fld data ''thinking'') then
        Inr (Some (ThinkingEvent
                     (js_or (js_or (fld data ''content'') (fld data ''thinking'')) (JString []))
                     timestamp))
      else if fld data ''type'' = JString ''tool_use'' \<or> truthy (fld data ''tool'') then
        Inr (Some (ToolUseEvent
                     (js_or (js_or (fld data ''name'') (get_opt (fld data ''tool'') ''name''))
                        (JString []))
                     (js_or (js_or (fld data ''input'') (get_opt (fld data ''tool'') ''input''))
                        (JObject []))
                     timestamp))
      else if fld data ''type'' = JString ''tool_result'' \<or> truthy (fld data ''result'') then
        Inr (Some (ToolResultEvent
                     (js_or (js_or (fld data ''content'') (fld data ''result'')) (JString []))
                     JUndefined timestamp))
      else if fld data ''type'' = JString ''message'' \<or> fld data ''type'' = JString ''content''
              \<or> truthy (fld data ''text'') then
        Inr (Some (MessageEvent
                     (js_or (js_or (fld data ''content'') (fld data ''text'')) (JString []))
                     timestamp))
      else if fld data ''type'' = JString ''error'' then
        Inr (Some (ErrorEvent
                     (js_or (js_or (fld data ''error'') (fld data ''message'')) (JString []))
                     JUndefined timestamp))
      else if truthy (js_or (fld data ''content'') (fld data ''text'')) then
        Inr (Some (RawOutputEvent
                     (js_or (js_or (fld data ''content'') (fld data ''text'')) (JString []))
                     False timestamp))
      else Inr None)"

text \<open>The session id a record reports: \<^verbatim>\<open>data.session_id || data.sessionId\<close>.\<close>

definition reported_session :: "jsval \<Rightarrow> jsval" where
  "reported_session data = js_or (fld data ''session_id'') (fld data ''sessionId'')"

definition capture_session :: "ClaudeManager \<Rightarrow> jsval \<Rightarrow> ClaudeManager" where
  "capture_session m data =
     (if truthy (reported_session data) then
        (let newSessionId = reported_session data
         in if newSessionId \<noteq> sessionId m then m\<lparr>sessionId := newSessionId\<rparr> else m)
      else m)"

text \<open>
  The two loops over the content blocks of a record. Each returns the events emitted;
  a \<^verbatim>\<open>null\<close> block throws, which ends the loop and the handling of the line, with
  the events emitted before it already out.
\<close>

fun assistant_blocks :: "nat \<Rightarrow> jsval list \<Rightarrow> event list" where
  "assistant_blocks now [] = []"
| "assistant_blocks now (b # bs) =
     (case contentBlockToEvent now b of
        Inl err \<Rightarrow> []
      | Inr None \<Rightarrow> assistant_blocks now bs
      | Inr (Some ev) \<Rightarrow> ev # assistant_blocks now bs)"

fun user_blocks :: "nat \<Rightarrow> jsval list \<Rightarrow> event list" where
  "user_blocks now [] = []"
| "user_blocks now (b # bs) =
     (if is_nullish b then []
      else if fld b ''type'' = JString ''tool_result'' then
        ToolResultEvent (js_or (fld b ''content'') (JString [])) JUndefined now
          # user_blocks now bs
      else user_blocks now bs)"

text \<open>
  The body of the \<^verbatim>\<open>try\<close> block of \<^verbatim>\<open>parseJsonStream\<close> after \<^verbatim>\<open>JSON.parse\<close>: the
  manager after the record and the events emitted for it. Every exception ends in the
  \<^verbatim>\<open>catch\<close> block, which only logs.
\<close>

definition handle_record :: "ClaudeManager \<Rightarrow> nat \<Rightarrow> jsval \<Rightarrow> ClaudeManager \<times> event list" where
  "handle_record m now data =
     (if is_nullish data then (m, [])
      else
        let m1 = capture_session m data;
            content = get_opt (fld data ''message'') ''content''
        in if fld data ''type'' = JString ''assistant'' \<and> truthy content then
             (m1, case iterate content of None \<Rightarrow> [] | Some blocks \<Rightarrow> assistant_blocks now blocks)
           else if fld data ''type'' = JString ''user'' \<and> truthy content then
             (m1, case iterate content of None \<Rightarrow> [] | Some blocks \<Rightarrow> user_blocks now blocks)
           else
             (m1, case jsonToEvent now data of Inr (Some ev) \<Rightarrow> [ev] | _ \<Rightarrow> []))"

definition handle_line :: "ClaudeManager \<Rightarrow> nat \<Rightarrow> string \<Rightarrow> ClaudeManager \<times> event list" where
  "handle_line m now line =
     (if trim line = [] then (m, [])
      else case JSON_parse line of
             None \<Rightarrow> (m, [])
           | Some data \<Rightarrow> handle_record m now data)"

fun handle_lines :: "ClaudeManager \<Rightarrow> nat \<Rightarrow> string list \<Rightarrow> ClaudeManager \<times> event list" where
  "handle_lines m now [] = (m, [])"
| "handle_lines m now (l # ls) =
     (let (m1, es1) = handle_line m now l;
          (m2, es2) = handle_lines m1 now ls
      in (m2, es1 @ es2))"

text \<open>\<^verbatim>\<open>ClaudeManager.parseJsonStream(chunk)\<close>: the lines are those of the chunk alone.\<close>

definition parseJsonStream :: "ClaudeManager \<Rightarrow> nat \<Rightarrow> string \<Rightarrow> ClaudeManager \<times> effect list" where
  "parseJsonStream m now chunk =
     (let (m1, es) = handle_lines m now (split_nl chunk)
      in (m1, map (Emit ''event'') es))"

text \<open>The handler of the child's stdout \<^verbatim>\<open>data\<close> event.\<close>

definition on_stdout_data :: "ClaudeManager \<Rightarrow> nat \<Rightarrow> string \<Rightarrow> ClaudeManager \<times> effect list" where
  "on_stdout_data m now chunk =
     (let (m1, fx) = parseJsonStream m now chunk
      in (m1, TerminalOut chunk # fx))"

text \<open>
  What the child does while a job runs, as the manager's handlers see it: output on
  stdout and stderr, the \<^verbatim>\<open>exit\<close> event with code and signal, the \<^verbatim>\<open>error\<close> event
  with the error's message and stack.
\<close>

datatype child_event =
    StdoutData string
  | StderrData string
  | ChildExit "int option" "string option"
  | ChildError string jsval

fun on_child_event :: "ClaudeManager \<Rightarrow> nat \<Rightarrow> child_event \<Rightarrow> ClaudeManager \<times> effect list" where
  "on_child_event m now (StdoutData chunk) = on_stdout_data m now chunk"
| "on_child_event m now (StderrData chunk) = on_stderr_data m chunk"
| "on_child_event m now (ChildExit code signal) = on_exit m now code signal"
| "on_child_event m now (ChildError msg stack) = on_error m now msg stack"

text \<open>A run of the handlers: the child's events in order, each with the clock reading at
  its arrival.\<close>

fun run_child :: "ClaudeManager \<Rightarrow> (nat \<times> child_event) list \<Rightarrow> ClaudeManager \<times> effect list" where
  "run_child m [] = (m, [])"
| "run_child m ((now, ev) # rest) =
     (let (m1, fx1) = on_child_event m now ev;
          (m2, fx2) = run_child m1 rest
      in (m2, fx1 @ fx2))"



subsection \<open>Stopping and resetting\<close>

text \<open>
  \<^verbatim>\<open>stop()\<close> returns at once when there is no child. Otherwise it sends SIGTERM and
  waits: either the child's \<^verbatim>\<open>exit\<close> event arrives within five seconds, or the timer
  fires and the child is sent SIGKILL. Which of the two happens is the environment's
  choice \<open>how\<close>; \<open>during\<close> is what the child does while \<^verbatim>\<open>stop\<close> waits, handled by
  the handlers \<^verbatim>\<open>sendMessage\<close> installed.
\<close>

datatype stop_outcome = ExitedInTime | GraceExpired

definition stop ::
  "ClaudeManager \<Rightarrow> (nat \<times> child_event) list \<Rightarrow> stop_outcome \<Rightarrow> ClaudeManager \<times> effect list"
where
  "stop m during how =
     (case currentProcess m of
        None \<Rightarrow> (m, [])
      | Some p \<Rightarrow>
          let (m1, fx) = run_child m during
          in (m1\<lparr>isProcessing := False\<rparr>,
              [Kill p ''SIGTERM''] @ fx @ (if how = GraceExpired then [Kill p ''SIGKILL''] else [])))"

text \<open>\<^verbatim>\<open>restart()\<close>: \<^verbatim>\<open>await this.stop(); this.sessionId = null\<close>.\<close>

definition restart ::
  "ClaudeManager \<Rightarrow> (nat \<times> child_event) list \<Rightarrow> stop_outcome \<Rightarrow> ClaudeManager \<times> effect list"
where
  "restart m during how =
     (let (m1, fx) = stop m during how
      in (m1\<lparr>sessionId := JNull\<rparr>, fx))"

section \<open>OutputParser (parsers/output-parser.ts)\<close>

record OutputParser =
  buffer :: string
  jsonBuffer :: string
  isJsonMode :: bool

definition new_OutputParser :: "bool \<Rightarrow> OutputParser" where
  "new_OutputParser jsonMode = \<lparr>buffer = [], jsonBuffer = [], isJsonMode = jsonMode\<rparr>"

definition OutputParser_reset :: "OutputParser \<Rightarrow> OutputParser" where
  "OutputParser_reset p = p\<lparr>buffer := [], jsonBuffer := []\<rparr>"

subsection \<open>JSON mode\<close>

text \<open>\<^verbatim>\<open>OutputParser.jsonToEvent(data)\<close>.\<close>

definition OutputParser_jsonToEvent :: "nat \<Rightarrow> jsval \<Rightarrow> js_error + event option" where
  "OutputParser_jsonToEvent timestamp data =
     (if is_nullish data then Inl TypeError
      else if fld data ''type'' = JString ''thinking'' then
        Inr (Some (ThinkingEvent
                     (js_or (js_or (fld data ''content'') (fld data ''text'')) (JString []))
                     timestamp))
      else if fld data ''type'' = JString ''tool_use'' then
        Inr (Some (ToolUseEvent (js_or (fld data ''name'') (JString []))
                     (js_or (fld data ''input'') (JObject [])) timestamp))
      else if fld data ''type'' = JString ''tool_result'' then
        Inr (Some (ToolResultEvent (js_or (fld data ''content'') (JString []))
                     (fld data ''success'') timestamp))
      else if fld data ''type'' = JString ''message'' \<or> fld data ''type'' = JString ''text'' then
        Inr (Some (MessageEvent
                     (js_or (js_or (fld data ''content'') (fld data ''text'')) (JString []))
                     timestamp))
      else if fld data ''type'' = JString ''error'' then
        Inr (Some (ErrorEvent
                     (js_or (js_or (fld data ''error'') (fld data ''message'')) (JString []))
                     (fld data ''stack'') timestamp))
      else if fld data ''type'' = JString ''complete'' \<or> fld data ''type'' = JString ''completed'' then
        Inr (Some (CompletedEvent (fld data ''summary'') timestamp))
      else Inr None)"

text \<open>The body of the loop over the complete lines: the events one line contributes.\<close>

definition OutputParser_line :: "nat \<Rightarrow> string \<Rightarrow> event list" where
  "OutputParser_line now line =
     (if trim line = [] then []
      else case JSON_parse line of
             None \<Rightarrow> []
           | Some data \<Rightarrow>
               (case OutputParser_jsonToEvent now data of
                  Inr (Some ev) \<Rightarrow> [ev]
                | _ \<Rightarrow> []))"

text \<open>
  \<^verbatim>\<open>OutputParser.parseJsonStream(chunk)\<close>: the chunk is appended to the carry-over
  buffer, the last piece (\<^verbatim>\<open>lines.pop() || ""\<close>) stays in the buffer, the pieces before
  it are decoded.
\<close>

definition OutputParser_parseJsonStream ::
  "OutputParser \<Rightarrow> nat \<Rightarrow> string \<Rightarrow> OutputParser \<times> event list"
where
  "OutputParser_parseJsonStream p now chunk =
     (let lines = split_nl (jsonBuffer p @ chunk)
      in (p\<lparr>jsonBuffer := (if lines = [] then [] else last lines)\<rparr>,
          concat (map (OutputParser_line now) (butlast lines))))"

subsection \<open>Text mode\<close>

text \<open>
  The text before and after the first occurrence of \<open>pat\<close> in a text, \<open>None\<close> when
  there is none.
\<close>

fun split_at :: "string \<Rightarrow> string \<Rightarrow> (string \<times> string) option" where
  "split_at pat [] = (if pat = [] then Some ([], []) else None)"
| "split_at pat (c # cs) =
     (if take (length pat) (c # cs) = pat then Some ([], drop (length pat) (c # cs))
      else case split_at pat cs of
             None \<Rightarrow> None
           | Some (pre, post) \<Rightarrow> Some (c # pre, post))"

text \<open>
  \<^verbatim>\<open>/<open>([\s\S]*?)<close>/\<close> for two fixed tags: the leftmost opening tag that has a
  closing tag after it is the first opening tag, and the lazy group ends at the first
  closing tag after it. The result is the group and the text after the match.
\<close>

definition match_between :: "string \<Rightarrow> string \<Rightarrow> string \<Rightarrow> (string \<times> string) option" where
  "match_between open_tag close_tag str =
     (case split_at open_tag str of
        None \<Rightarrow> None
      | Some (pre, rest) \<Rightarrow> split_at close_tag rest)"

lemma split_at_decomp: "split_at pat str = Some (pre, post) \<Longrightarrow> str = pre @ pat @ post"
proof (induction str arbitrary: pre)
  case Nil
  then show ?case by (simp split: if_splits)
next
  case (Cons c cs)
  show ?case
  proof (cases "take (length pat) (c # cs) = pat")
    case True
    with Cons.prems have "pre = []" "post = drop (length pat) (c # cs)"
      by simp_all
    with True show ?thesis
      by (metis append_Nil append_take_drop_id)
  next
    case False
    with Cons.prems obtain b where b: "split_at pat cs = Some (b, post)" "pre = c # b"
      by (auto split: option.splits)
    from Cons.IH [OF b(1)] b(2) show ?thesis by simp
  qed
qed

lemma split_at_length:
  "split_at pat str = Some (pre, post) \<Longrightarrow> length str = length pre + length pat + length post"
  by (drule split_at_decomp) simp

text \<open>The line terminators, which \<^verbatim>\<open>.\<close> does not match.\<close>

definition is_line_terminator :: "char \<Rightarrow> bool" where
  "is_line_terminator c = (c = CHR 0x0A \<or> c = CHR 0x0D)"

text \<open>
  \<^verbatim>\<open>[\s\S]*?<name>(.*?)<\/name>\<close> on the text after \<^verbatim>\<open><tool_use>\<close>: the opening tags
  are tried from the left; at each, the lazy group ends at the first closing tag, and it
  must not contain a line terminator. The result is the name and the text after
  \<^verbatim>\<open></name>\<close>.
\<close>

function find_name :: "string \<Rightarrow> (string \<times> string) option" where
  "find_name str =
     (case split_at ''<name>'' str of
        None \<Rightarrow> None
      | Some (pre, rest) \<Rightarrow>
          (case split_at ''</name>'' rest of
             None \<Rightarrow> None
           | Some (name, post) \<Rightarrow>
               if list_ex is_line_terminator name then find_name rest
               else Some (name, post)))"
  by pat_completeness auto
termination
proof (relation "measure length", goal_cases)
  case (2 str x2 pre rest x2a name post)
  then show ?case using split_at_length [of "''<name>''" str pre rest] by simp
qed simp

declare find_name.simps [simp del]

text \<open>The match of the tool-use pattern: name, parameters, and the text after it.\<close>

definition match_tool_use :: "string \<Rightarrow> (string \<times> string \<times> string) option" where
  "match_tool_use str =
     (case split_at ''<tool_use>'' str of
        None \<Rightarrow> None
      | Some (pre, r0) \<Rightarrow>
          (case find_name r0 of
             None \<Rightarrow> None
           | Some (name, r2) \<Rightarrow>
               (case match_between ''<parameters>'' ''</parameters>'' r2 of
                  None \<Rightarrow> None
                | Some (params, r4) \<Rightarrow>
                    (case split_at ''</tool_use>'' r4 of
                       None \<Rightarrow> None
                     | Some (gap, r5) \<Rightarrow> Some (name, params, r5)))))"

text \<open>
  \<^verbatim>\<open>/^Assistant: (.*?)(?=\n<|$)/s\<close>: the text must begin with the label; the group
  runs to the first newline followed by \<^verbatim>\<open><\<close>, or to the end.
\<close>

definition match_message :: "string \<Rightarrow> (string \<times> string) option" where
  "match_message str =
     (if take 11 str = ''Assistant: '' then
        (case split_at [CHR 0x0A, CHR ''<''] (drop 11 str) of
           None \<Rightarrow> Some (drop 11 str, [])
         | Some (content, post) \<Rightarrow> Some (content, [CHR 0x0A, CHR ''<''] @ post))
      else None)"

text \<open>\<^verbatim>\<open>parseParams(paramsXml)\<close>.\<close>

definition parseParams :: "string \<Rightarrow> jsval" where
  "parseParams paramsXml =
     (case JSON_parse paramsXml of
        Some v \<Rightarrow> v
      | None \<Rightarrow> JObject [(''raw'', JString (trim paramsXml))])"

text \<open>
  \<^verbatim>\<open>extractNextEvent()\<close> on the buffer: the event and the buffer after it, \<open>None\<close> for
  \<^verbatim>\<open>null\<close> (the buffer is then unchanged).
\<close>

definition extractNextEvent :: "nat \<Rightarrow> string \<Rightarrow> (event \<times> string) option" where
  "extractNextEvent timestamp buf =
     (case match_between ''<thinking>'' ''</thinking>'' buf of
        Some (content, rest) \<Rightarrow> Some (ThinkingEvent (JString (trim content)) timestamp, rest)
      | None \<Rightarrow>
     (case match_tool_use buf of
        Some (name, params, rest) \<Rightarrow>
          Some (ToolUseEvent (JString name) (parseParams params) timestamp, rest)
      | None \<Rightarrow>
     (case match_between ''<tool_result>'' ''</tool_result>'' buf of
        Some (content, rest) \<Rightarrow>
          Some (ToolResultEvent (JString (trim content)) JUndefined timestamp, rest)
      | None \<Rightarrow>
     (case match_message buf of
        Some (content, rest) \<Rightarrow> Some (MessageEvent (JString (trim content)) timestamp, rest)
      | None \<Rightarrow> None))))"

lemma match_between_shorter:
  assumes "match_between a b str = Some (g, rest)" and "a \<noteq> []"
  shows "length rest < length str"
proof -
  from assms(1) obtain pre r1 where
    x: "split_at a str = Some (pre, r1)" and y: "split_at b r1 = Some (g, rest)"
    by (auto simp: match_between_def split: option.splits)
  from split_at_length [OF x] split_at_length [OF y] assms(2) show ?thesis
    by (cases a) auto
qed

lemma find_name_le: "find_name str = Some (n, rest) \<Longrightarrow> length rest \<le> length str"
proof (induction str rule: find_name.induct)
  case (1 str)
  from "1.prems" obtain pre r1 where a: "split_at ''<name>'' str = Some (pre, r1)"
    by (subst (asm) find_name.simps) (auto split: option.splits)
  from "1.prems" a obtain nm post where b: "split_at ''</name>'' r1 = Some (nm, post)"
    by (subst (asm) find_name.simps) (auto split: option.splits)
  have l1: "length r1 \<le> length str" using split_at_length [OF a] by simp
  show ?case
  proof (cases "list_ex is_line_terminator nm")
    case True
    with "1.prems" a b have "find_name r1 = Some (n, rest)"
      by (subst (asm) find_name.simps) simp
    from "1.IH" [OF a refl b refl True this] l1 show ?thesis by simp
  next
    case False
    with "1.prems" a b have "rest = post"
      by (subst (asm) find_name.simps) simp
    with split_at_length [OF b] l1 show ?thesis by simp
  qed
qed

lemma match_tool_use_shorter:
  assumes "match_tool_use str = Some (n, ps, rest)"
  shows "length rest < length str"
proof -
  from assms obtain pre r0 r2 r4 gap where
    a: "split_at ''<tool_use>'' str = Some (pre, r0)" and
    b: "find_name r0 = Some (n, r2)" and
    c: "match_between ''<parameters>'' ''</parameters>'' r2 = Some (ps, r4)" and
    d: "split_at ''</tool_use>'' r4 = Some (gap, rest)"
    by (auto simp: match_tool_use_def split: option.splits)
  from split_at_length [OF a] find_name_le [OF b] match_between_shorter [OF c]
    split_at_length [OF d]
  show ?thesis by simp
qed

lemma match_message_shorter:
  assumes "match_message str = Some (g, rest)"
  shows "length rest < length str"
proof -
  from assms have p: "take 11 str = ''Assistant: ''"
    by (auto simp: match_message_def split: if_splits)
  then have "length (take 11 str) = 11" by simp
  then have l: "11 \<le> length str" by simp
  show ?thesis
  proof (cases "split_at [CHR 0x0A, CHR ''<''] (drop 11 str)")
    case None
    with assms p l show ?thesis by (auto simp: match_message_def)
  next
    case (Some r)
    obtain content post where r: "r = (content, post)" by (cases r)
    from split_at_length [of "[CHR 0x0A, CHR ''<'']" "drop 11 str" content post] Some r
    have "length post + 2 \<le> length (drop 11 str)" by simp
    with assms p l Some r show ?thesis by (auto simp: match_message_def)
  qed
qed

lemma extractNextEvent_shorter:
  assumes "extractNextEvent now buf = Some (ev, rest)"
  shows "length rest < length buf"
  using assms
  by (auto simp: extractNextEvent_def split: option.splits
        dest: match_between_shorter match_tool_use_shorter match_message_shorter)

text \<open>The loop of \<^verbatim>\<open>parseTextOutput\<close>: events are extracted until none is left.\<close>

function extract_all :: "nat \<Rightarrow> string \<Rightarrow> event list \<times> string" where
  "extract_all now buf =
     (case extractNextEvent now buf of
        None \<Rightarrow> ([], buf)
      | Some (ev, rest) \<Rightarrow>
          (let (evs, final) = extract_all now rest in (ev # evs, final)))"
  by pat_completeness auto
termination
proof (relation "measure (\<lambda>(now, buf). length buf)", goal_cases)
  case (2 now buf x2 ev rest)
  then show ?case using extractNextEvent_shorter [of now buf ev rest] by simp
qed simp

declare extract_all.simps [simp del]

text \<open>
  \<^verbatim>\<open>parseTextOutput(rawOutput)\<close>. \<open>stripAnsi\<close> is the function of the package
  \<^verbatim>\<open>strip-ansi\<close>, which is not part of this repository.
\<close>

definition parseTextOutput ::
  "(string \<Rightarrow> string) \<Rightarrow> OutputParser \<Rightarrow> nat \<Rightarrow> string \<Rightarrow> OutputParser \<times> event list"
where
  "parseTextOutput stripAnsi p now rawOutput =
     (let clean = stripAnsi rawOutput;
          (evs, final) = extract_all now (buffer p @ clean)
      in (p\<lparr>buffer := final\<rparr>, evs))"

text \<open>\<^verbatim>\<open>parse(rawOutput)\<close>.\<close>

definition OutputParser_parse ::
  "(string \<Rightarrow> string) \<Rightarrow> OutputParser \<Rightarrow> nat \<Rightarrow> string \<Rightarrow> OutputParser \<times> event list"
where
  "OutputParser_parse stripAnsi p now rawOutput =
     (let (p1, events) =
            (if isJsonMode p then OutputParser_parseJsonStream p now rawOutput
             else parseTextOutput stripAnsi p now rawOutput)
      in (p1, events @ [RawOutputEvent (JString rawOutput) True now]))"

text \<open>Feeding the JSON-mode decoder a sequence of chunks, the clock held at \<open>now\<close>.\<close>

fun OutputParser_feed :: "OutputParser \<Rightarrow> nat \<Rightarrow> string list \<Rightarrow> OutputParser \<times> event list" where
  "OutputParser_feed p now [] = (p, [])"
| "OutputParser_feed p now (chunk # chunks) =
     (let (p1, es1) = OutputParser_parseJsonStream p now chunk;
          (p2, es2) = OutputParser_feed p1 now chunks
      in (p2, es1 @ es2))"

text \<open>The event types of \<^verbatim>\<open>EventType\<close> in types/events.ts.\<close>

definition EventType :: "string list" where
  "EventType = [''connected'', ''thinking'', ''tool_use'', ''tool_result'', ''message'',
                ''status'', ''error'', ''completed'', ''raw_output'']"

text \<open>The event types the specification gives for the wire event shape.\<close>

definition spec_event_types :: "string list" where
  "spec_event_types = [''connected'', ''thinking'', ''tool_use'', ''tool_result'', ''message'',
                       ''status'', ''error'', ''completed'']"

section \<open>SSEManager (streaming/sse-manager.ts)\<close>

text \<open>
  What is written to a response: the two writes of \<^verbatim>\<open>sendEvent\<close> are the line
  \<^verbatim>\<open>event: <type>\<close> and the line \<^verbatim>\<open>data: <JSON text of the event>\<close>; the model keeps
  the event itself in place of its JSON text.
\<close>

datatype sse_write = EventLine string | DataLine event

text \<open>
  The response object of a subscriber, as far as the manager uses it. \<open>remaining\<close>
  says how the connection behaves: \<open>None\<close> accepts every write, \<open>Some n\<close> accepts
  \<open>n\<close> more writes and throws on every write after them (\<open>Some 0\<close> is a connection
  that is gone).
\<close>

record Response =
  headers :: "(string \<times> string) list"
  written :: "sse_write list"
  remaining :: "nat option"
  ended :: bool

text \<open>\<^verbatim>\<open>res.write(x)\<close>: \<open>None\<close> when it throws.\<close>

definition res_write :: "Response \<Rightarrow> sse_write \<Rightarrow> Response option" where
  "res_write r x =
     (case remaining r of
        None \<Rightarrow> Some (r\<lparr>written := written r @ [x]\<rparr>)
      | Some 0 \<Rightarrow> None
      | Some (Suc n) \<Rightarrow> Some (r\<lparr>written := written r @ [x], remaining := Some n\<rparr>))"

text \<open>\<^verbatim>\<open>res.end()\<close> inside its \<^verbatim>\<open>try\<close>: an exception from it is swallowed.\<close>

definition res_end :: "Response \<Rightarrow> Response" where
  "res_end r = r\<lparr>ended := True\<rparr>"

text \<open>
  \<^verbatim>\<open>sendEvent(res, event)\<close>: the response after the call, and whether the call returned
  (\<open>True\<close>) or threw (\<open>False\<close>).
\<close>

definition sendEvent :: "Response \<Rightarrow> event \<Rightarrow> Response \<times> bool" where
  "sendEvent res event =
     (let eventType = (if event_type event = [] then ''message'' else event_type event)
      in case res_write res (EventLine eventType) of
           None \<Rightarrow> (res, False)
         | Some r1 \<Rightarrow>
             (case res_write r1 (DataLine event) of
                None \<Rightarrow> (r1, False)
              | Some r2 \<Rightarrow> (r2, True)))"

text \<open>
  The \<^verbatim>\<open>Map\<close> of clients, in insertion order; its keys are distinct. \<open>map_set\<close> and
  \<open>map_delete\<close> are \<^verbatim>\<open>Map.set\<close> and \<^verbatim>\<open>Map.delete\<close>.
\<close>

record SSEManager =
  clients :: "(string \<times> Response) list"

fun map_set :: "(string \<times> 'v) list \<Rightarrow> string \<Rightarrow> 'v \<Rightarrow> (string \<times> 'v) list" where
  "map_set [] k v = [(k, v)]"
| "map_set ((k', v') # kvs) k v = (if k' = k then (k, v) # kvs else (k', v') # map_set kvs k v)"

definition map_delete :: "(string \<times> 'v) list \<Rightarrow> string \<Rightarrow> (string \<times> 'v) list" where
  "map_delete kvs k = filter (\<lambda>kv. fst kv \<noteq> k) kvs"

definition new_SSEManager :: SSEManager where
  "new_SSEManager = \<lparr>clients = []\<rparr>"

text \<open>
  \<^verbatim>\<open>addClient(clientId, res)\<close>: \<open>None\<close> when the initial \<^verbatim>\<open>connected\<close> event cannot
  be written and the exception leaves the method.
\<close>

definition addClient :: "SSEManager \<Rightarrow> string \<Rightarrow> Response \<Rightarrow> nat \<Rightarrow> SSEManager option" where
  "addClient m clientId res now =
     (let r1 = res\<lparr>headers := headers res @
                 [(''Content-Type'', ''text/event-stream''), (''Cache-Control'', ''no-cache''),
                  (''Connection'', ''keep-alive''), (''X-Accel-Buffering'', ''no'')]\<rparr>
      in case sendEvent r1 (ConnectedEvent clientId now) of
           (r2, True) \<Rightarrow> Some (m\<lparr>clients := map_set (clients m) clientId r2\<rparr>)
         | (r2, False) \<Rightarrow> None)"

text \<open>
  \<^verbatim>\<open>removeClient(clientId)\<close>: the manager without the client, and the response it
  ended, if the client was registered.
\<close>

definition removeClient :: "SSEManager \<Rightarrow> string \<Rightarrow> SSEManager \<times> Response option" where
  "removeClient m clientId =
     (case map_of (clients m) clientId of
        None \<Rightarrow> (m, None)
      | Some res \<Rightarrow> (m\<lparr>clients := map_delete (clients m) clientId\<rparr>, Some (res_end res)))"

text \<open>
  The loop of \<^verbatim>\<open>broadcast\<close> over the entries of the map: the entries that stay, with
  their responses after the push, and the entries removed by the \<^verbatim>\<open>catch\<close> block, with
  their responses after \<^verbatim>\<open>removeClient\<close> ended them.
\<close>

fun broadcast_loop ::
  "event \<Rightarrow> (string \<times> Response) list \<Rightarrow> (string \<times> Response) list \<times> (string \<times> Response) list"
where
  "broadcast_loop event [] = ([], [])"
| "broadcast_loop event ((clientId, res) # rest) =
     (let (res1, ok) = sendEvent res event;
          (kept, removed) = broadcast_loop event rest
      in if ok then ((clientId, res1) # kept, removed)
         else (kept, (clientId, res_end res1) # removed))"

text \<open>
  \<^verbatim>\<open>broadcast(event)\<close>: the manager after the call, the clients it removed, and how
  the call ended (\<open>Inr ()\<close>: it returned; no exception leaves the loop body).
\<close>

definition broadcast ::
  "SSEManager \<Rightarrow> event \<Rightarrow> SSEManager \<times> (string \<times> Response) list \<times> (js_error + unit)"
where
  "broadcast m event =
     (let (kept, removed) = broadcast_loop event (clients m)
      in (m\<lparr>clients := kept\<rparr>, removed, Inr ()))"

definition sendToClient :: "SSEManager \<Rightarrow> string \<Rightarrow> event \<Rightarrow> SSEManager" where
  "sendToClient m clientId event =
     (case map_of (clients m) clientId of
        None \<Rightarrow> m
      | Some res \<Rightarrow>
          (case sendEvent res event of
             (r1, True) \<Rightarrow> m\<lparr>clients := map_set (clients m) clientId r1\<rparr>
           | (r1, False) \<Rightarrow> fst (removeClient (m\<lparr>clients := map_set (clients m) clientId r1\<rparr>) clientId)))"

definition closeAll :: "SSEManager \<Rightarrow> SSEManager \<times> (string \<times> Response) list" where
  "closeAll m = (m\<lparr>clients := []\<rparr>, map (\<lambda>(k, r). (k, res_end r)) (clients m))"

definition getClientCount :: "SSEManager \<Rightarrow> nat" where
  "getClientCount m = length (clients m)"

definition getClientIds :: "SSEManager \<Rightarrow> string list" where
  "getClientIds m = map fst (clients m)"

text \<open>A push succeeds when the connection accepts both writes of \<^verbatim>\<open>sendEvent\<close>.\<close>

definition push_succeeds :: "Response \<Rightarrow> bool" where
  "push_succeeds r = (case remaining r of None \<Rightarrow> True | Some n \<Rightarrow> 2 \<le> n)"

text \<open>A response has received an event when the two lines of its frame are the last
  things written to it.\<close>

definition received :: "Response \<Rightarrow> event \<Rightarrow> bool" where
  "received r e =
     (2 \<le> length (written r)
      \<and> drop (length (written r) - 2) (written r) = [EventLine (event_type e), DataLine e])"

section \<open>Notions used in the statements\<close>















definition fresh_response :: Response where
  "fresh_response = \<lparr>headers = [], written = [], remaining = None, ended = False\<rparr>"

text \<open>Three registered subscribers; the connection of the second is gone.\<close>

definition three_subscribers :: SSEManager where
  "three_subscribers =
     \<lparr>clients = [(''a'', fresh_response), (''b'', fresh_response\<lparr>remaining := Some 0\<rparr>),
                 (''c'', fresh_response)]\<rparr>"

section \<open>Process exit\<close>




text \<open>
  Claim C9. When the child ends with a \<^verbatim>\<open>null\<close> exit code (a signal ended it) the exit
  handler emits exactly one event, an \<^verbatim>\<open>error\<close> event, and clears the busy flag; for
  any exit status, a \<^verbatim>\<open>completed\<close> event is among the emitted events exactly when the
  code is the number 0.
\<close>

theorem null_exit_code_is_error:
  "emitted (snd (on_exit m now None sg)) =
     [ErrorEvent (JString ''Claude exited with code null'') JUndefined now]
   \<and> \<not> isBusy (fst (on_exit m now None sg))
   \<and> ((''completed'' \<in> set (map event_type (emitted (snd (on_exit m now code sg))))) = (code = Some 0))"
  by (cases "code = Some 0") (simp_all add: on_exit_def isBusy_def string_of_code_def)

section \<open>Rejecting a message while busy\<close>

text \<open>
  Claim C3. When a job is in flight (\<^verbatim>\<open>isBusy()\<close> is true), \<^verbatim>\<open>sendMessage\<close> throws
  an error saying so, has no effect (in particular it spawns nothing), and leaves every
  field of the manager as it was: busy flag, session id and activity timestamps.
\<close>

theorem sendMessage_busy_rejected:
  assumes "isBusy m"
  shows "sendMessage m now child message =
           (m, [], Inl (Error ''Claude is currently processing another message''))
       \<and> spawned (fst (snd (sendMessage m now child message))) = []
       \<and> isBusy (fst (sendMessage m now child message)) = isBusy m
       \<and> sessionId (fst (sendMessage m now child message)) = sessionId m
       \<and> lastActivity (fst (sendMessage m now child message)) = lastActivity m
       \<and> startTime (fst (sendMessage m now child message)) = startTime m"
  using assms by (simp add: sendMessage_def isBusy_def)

theorem sendMessage_busy_rejected_witness:
  "isBusy (new_ClaudeManager proxy_config\<lparr>isProcessing := True, sessionId := JString ''abc''\<rparr>)
   \<and> sendMessage (new_ClaudeManager proxy_config\<lparr>isProcessing := True, sessionId := JString ''abc''\<rparr>)
         5 (1, True) ''hi''
       = (new_ClaudeManager proxy_config\<lparr>isProcessing := True, sessionId := JString ''abc''\<rparr>, [],
          Inl (Error ''Claude is currently processing another message''))"
proof -
  have b: "isBusy (new_ClaudeManager proxy_config\<lparr>isProcessing := True, sessionId := JString ''abc''\<rparr>)"
    by (simp add: isBusy_def new_ClaudeManager_def)
  show ?thesis using b sendMessage_busy_rejected [OF b] by simp
qed

section \<open>Conversation continuity\<close>











lemma config_handle_lines: "config (fst (handle_lines m now ls)) = config m"
proof (induction ls arbitrary: m)
  case Nil
  then show ?case by simp
next
  case (Cons l ls)
  have c: "config (fst (handle_line m now l)) = config m"
    by (simp add: handle_line_def handle_record_def capture_session_def Let_def
          split: option.splits)
  show ?case
    using Cons.IH [of "fst (handle_line m now l)"] c
    by (simp add: split_beta)
qed

lemma config_on_child_event: "config (fst (on_child_event m now ev)) = config m"
  using config_handle_lines [of m now]
  by (cases ev)
     (simp_all add: on_stdout_data_def parseJsonStream_def on_stderr_data_def on_exit_def
        on_error_def Let_def split_beta)

lemma config_run_child: "config (fst (run_child m evs)) = config m"
proof (induction evs arbitrary: m)
  case Nil
  then show ?case by simp
next
  case (Cons x evs)
  obtain now ev where x: "x = (now, ev)" by (cases x)
  show ?case
    using Cons.IH [of "fst (on_child_event m now ev)"] config_on_child_event [of m now ev]
    by (simp add: x split_beta)
qed

lemma sendMessage_idle:
  "\<not> isBusy m \<Longrightarrow>
   spawned (fst (snd (sendMessage m now child message))) =
     [(claudePath (config m), build_args m, workingDirectory (config m))]"
  by (simp add: sendMessage_def isBusy_def Let_def build_args_def)




text \<open>
  Claim C7. When \<^verbatim>\<open>restart()\<close> (the reset) has completed, the stored session id is
  \<^verbatim>\<open>null\<close>, whatever the child did while it was being stopped. The argument vector of
  the next \<^verbatim>\<open>sendMessage\<close> is the fixed flags followed by the configured extra
  arguments, with nothing after them; it is the vector the child is spawned with, and it
  contains no \<^verbatim>\<open>--continue\<close> unless the configuration itself supplies one.
\<close>

theorem reset_clears_continuation:
  "sessionId (fst (restart m during how)) = JNull
   \<and> build_args (fst (restart m during how)) = map JString (fixed_flags @ extra_args (config m))
   \<and> (\<not> isBusy (fst (restart m during how)) \<longrightarrow>
        spawned (fst (snd (sendMessage (fst (restart m during how)) now child message))) =
          [(claudePath (config m), map JString (fixed_flags @ extra_args (config m)),
            workingDirectory (config m))])
   \<and> (currentProcess m \<noteq> None \<longrightarrow> \<not> isBusy (fst (restart m during how)))
   \<and> (''--continue'' \<notin> set (extra_args (config m)) \<longrightarrow>
        JString ''--continue'' \<notin> set (build_args (fst (restart m during how))))"
proof -
  have c: "config (fst (restart m during how)) = config m"
    using config_run_child [of m during]
    by (simp add: restart_def stop_def split_beta Let_def split: option.splits)
  have s: "sessionId (fst (restart m during how)) = JNull"
    by (simp add: restart_def split_beta)
  have b: "build_args (fst (restart m during how)) =
      map JString (fixed_flags @ extra_args (config m))"
    using s c by (simp add: build_args_def)
  have i: "currentProcess m \<noteq> None \<longrightarrow> \<not> isBusy (fst (restart m during how))"
    by (auto simp: restart_def stop_def split_beta Let_def isBusy_def)
  have n: "''--continue'' \<notin> set (extra_args (config m)) \<longrightarrow>
        JString ''--continue'' \<notin> set (build_args (fst (restart m during how)))"
    unfolding b by (auto simp: fixed_flags_def)
  show ?thesis
    using s b i n sendMessage_idle [of "fst (restart m during how)" now child message] c
    by simp
qed

theorem reset_clears_continuation_witness:
  "sessionId (fst (restart
       (new_ClaudeManager proxy_config\<lparr>currentProcess := Some 1, sessionId := JString ''abc''\<rparr>)
       [] GraceExpired)) = JNull
   \<and> spawned (fst (snd (sendMessage (fst (restart
       (new_ClaudeManager proxy_config\<lparr>currentProcess := Some 1, sessionId := JString ''abc''\<rparr>)
       [] GraceExpired)) 9 (2, True) ''hello'')))
     = [(''claude'',
         map JString [''--print'', ''--output-format'', ''stream-json'', ''--verbose'',
                      ''--permission-mode'', ''bypassPermissions''],
         ''/workspace'')]
   \<and> JString ''--continue'' \<notin> set (build_args (fst (restart
       (new_ClaudeManager proxy_config\<lparr>currentProcess := Some 1, sessionId := JString ''abc''\<rparr>)
       [] GraceExpired)))"
  using reset_clears_continuation
    [of "new_ClaudeManager proxy_config\<lparr>currentProcess := Some 1, sessionId := JString ''abc''\<rparr>"
        "[]" GraceExpired 9 "(2, True)" "''hello''"]
  by (simp add: new_ClaudeManager_def proxy_config_def fixed_flags_def extra_args_def)

section \<open>From records to events\<close>














section \<open>Chunk boundaries\<close>

text \<open>
  \<^verbatim>\<open>OutputParser.parseJsonStream\<close> carries the unfinished last line over to the next
  call, so feeding it a text in pieces decodes the same events, and leaves the same
  carry-over, as feeding it the whole text at once.
\<close>

lemma split_nl_nonempty: "split_nl s \<noteq> []"
  by (induction s) (auto split: list.splits)

lemma split_nl_append:
  "split_nl (a @ b) = butlast (split_nl a) @ split_nl (last (split_nl a) @ b)"
proof (induction a)
  case Nil
  then show ?case by simp
next
  case (Cons c cs)
  show ?case
  proof (cases "c = CHR 0x0A")
    case True
    then show ?thesis
      using Cons.IH split_nl_nonempty [of cs] by simp
  next
    case False
    obtain l ls where s: "split_nl cs = l # ls"
      using split_nl_nonempty [of cs] by (cases "split_nl cs") auto
    show ?thesis
    proof (cases ls)
      case Nil
      with s Cons.IH have "split_nl (cs @ b) = split_nl (l @ b)" by simp
      with False s Nil show ?thesis
        by (simp add: split_nl_nonempty split: list.splits)
    next
      case (Cons l' ls')
      with s Cons.IH have "split_nl (cs @ b) = l # butlast ls @ split_nl (last ls @ b)"
        by simp
      with False s Cons show ?thesis by simp
    qed
  qed
qed

lemma OutputParser_two_chunks:
  "OutputParser_feed p now [a, b] = OutputParser_parseJsonStream p now (a @ b)"
proof -
  let ?la = "split_nl (jsonBuffer p @ a)"
  let ?lb = "split_nl (last ?la @ b)"
  have ab: "split_nl (jsonBuffer p @ a @ b) = butlast ?la @ ?lb"
    using split_nl_append [of "jsonBuffer p @ a" b] by simp
  have nb: "?lb \<noteq> []" by (rule split_nl_nonempty)
  have na: "?la \<noteq> []" by (rule split_nl_nonempty)
  have l: "last (butlast ?la @ ?lb) = last ?lb" using nb by simp
  have bl: "butlast (butlast ?la @ ?lb) = butlast ?la @ butlast ?lb"
    using nb by (simp add: butlast_append)
  show ?thesis
    using na nb by (simp add: OutputParser_parseJsonStream_def Let_def ab l bl)
qed

lemma OutputParser_chunk_invariance:
  "chunks \<noteq> [] \<Longrightarrow>
   OutputParser_feed p now chunks = OutputParser_parseJsonStream p now (concat chunks)"
proof (induction chunks arbitrary: p)
  case Nil
  then show ?case by simp
next
  case (Cons c cs)
  show ?case
  proof (cases cs)
    case Nil
    then show ?thesis by (simp add: split_beta)
  next
    case (Cons c' cs')
    obtain p1 es1 where h: "OutputParser_parseJsonStream p now c = (p1, es1)"
      by (cases "OutputParser_parseJsonStream p now c")
    have "OutputParser_feed p1 now cs = OutputParser_parseJsonStream p1 now (concat cs)"
      using Cons.IH [of p1] Cons by simp
    then have "OutputParser_feed p now (c # cs) = OutputParser_feed p now [c, concat cs]"
      using h by (simp add: split_beta)
    then show ?thesis
      by (simp only: OutputParser_two_chunks concat.simps)
  qed
qed

text \<open>
  Claim C1. \<^verbatim>\<open>ClaudeManager.parseJsonStream\<close>, the decoder the running proxy uses, has
  no carry-over: it splits each chunk on its own. The stream below is one well-formed
  record and its newline. Fed whole it decodes to one error event; fed as two chunks
  cut inside the record, each fragment is tried on its own, neither parses, and nothing
  is decoded. \<^verbatim>\<open>OutputParser\<close> decodes the record from the same two chunks.
\<close>

theorem manager_drops_record_split_across_chunks:
  \<open>JSON_parse ''{"type":"err'' = None
   \<and> JSON_parse ''or","error":"x"}'' = None
   \<and> JSON_parse ''{"type":"error","error":"x"}''
     = Some (JObject [(''type'', JString ''error''), (''error'', JString ''x'')])
   \<and> emitted (snd (run_child (new_ClaudeManager proxy_config)
       [(1, StdoutData ''{"type":"error","error":"x"}\<newline>'')]))
     = [ErrorEvent (JString ''x'') JUndefined 1]
   \<and> emitted (snd (run_child (new_ClaudeManager proxy_config)
       [(1, StdoutData ''{"type":"err''), (1, StdoutData ''or","error":"x"}\<newline>'')]))
     = []
   \<and> snd (OutputParser_feed (new_OutputParser True) 1
       [''{"type":"err'', ''or","error":"x"}\<newline>''])
     = [ErrorEvent (JString ''x'') JUndefined 1]\<close>
  by code_simp


section \<open>The raw output event\<close>

lemma parse_last:
  "snd (OutputParser_parse stripAnsi p now rawOutput) =
     (if isJsonMode p then snd (OutputParser_parseJsonStream p now rawOutput)
      else snd (parseTextOutput stripAnsi p now rawOutput))
     @ [RawOutputEvent (JString rawOutput) True now]"
  by (simp add: OutputParser_parse_def split_beta)

text \<open>
  Claim C10. Whatever the mode, the state and the chunk, \<^verbatim>\<open>OutputParser.parse\<close>
  returns, and the array it returns ends with a \<^verbatim>\<open>raw_output\<close> event that carries the
  chunk as it came; so the array is never empty. \<^verbatim>\<open>raw_output\<close> is an event type of
  the source and none of the types the specification lists.
\<close>

theorem parse_appends_raw_output:
  "snd (OutputParser_parse stripAnsi p now rawOutput) \<noteq> []
   \<and> last (snd (OutputParser_parse stripAnsi p now rawOutput))
       = RawOutputEvent (JString rawOutput) True now
   \<and> event_type (last (snd (OutputParser_parse stripAnsi p now rawOutput))) = ''raw_output''
   \<and> ''raw_output'' \<in> set EventType
   \<and> ''raw_output'' \<notin> set spec_event_types"
  by (simp add: parse_last EventType_def spec_event_types_def)

section \<open>Broadcast\<close>

lemma event_type_nonempty: "event_type e \<noteq> []"
  by (cases e) simp_all

lemma sendEvent_ok:
  "push_succeeds r \<Longrightarrow>
   snd (sendEvent r e) \<and> written (fst (sendEvent r e)) = written r @ [EventLine (event_type e), DataLine e]
   \<and> ended (fst (sendEvent r e)) = ended r"
  by (cases "remaining r")
     (auto simp: push_succeeds_def sendEvent_def res_write_def event_type_nonempty
        split: nat.splits)

lemma sendEvent_fail: "\<not> push_succeeds r \<Longrightarrow> \<not> snd (sendEvent r e)"
  by (cases "remaining r")
     (auto simp: push_succeeds_def sendEvent_def res_write_def event_type_nonempty
        split: nat.splits)

lemma broadcast_loop_kept:
  "fst (broadcast_loop e cs) =
     map (\<lambda>(k, r). (k, fst (sendEvent r e))) (filter (\<lambda>(k, r). push_succeeds r) cs)"
proof (induction cs)
  case Nil
  then show ?case by simp
next
  case (Cons c cs)
  obtain k r where c: "c = (k, r)" by (cases c)
  show ?case
    using Cons.IH sendEvent_ok [of r e] sendEvent_fail [of r e]
    by (cases "push_succeeds r") (simp_all add: c split_beta)
qed

lemma broadcast_loop_removed:
  "map fst (snd (broadcast_loop e cs)) = map fst (filter (\<lambda>(k, r). \<not> push_succeeds r) cs)
   \<and> (\<forall>x\<in>set (snd (broadcast_loop e cs)). ended (snd x))"
proof (induction cs)
  case Nil
  then show ?case by simp
next
  case (Cons c cs)
  obtain k r where c: "c = (k, r)" by (cases c)
  show ?case
    using Cons.IH sendEvent_ok [of r e] sendEvent_fail [of r e]
    by (cases "push_succeeds r") (simp_all add: c split_beta res_end_def)
qed

lemma received_after_push: "push_succeeds r \<Longrightarrow> received (fst (sendEvent r e)) e"
  using sendEvent_ok [of r e] by (simp add: received_def)

text \<open>
  Claim C8. After \<^verbatim>\<open>broadcast(event)\<close> the registered subscribers are those whose push
  succeeded, in their old order, and each of them has received the event; the
  subscribers whose push failed are the ones removed, each with its response ended; and
  the call returns without raising. With three subscribers of which the second is
  disconnected, the first and third receive the event and the second is removed.
\<close>

theorem broadcast_delivers_and_prunes:
  "clients (fst (broadcast m e)) =
     map (\<lambda>(k, r). (k, fst (sendEvent r e))) (filter (\<lambda>(k, r). push_succeeds r) (clients m))
   \<and> map fst (clients (fst (broadcast m e))) = map fst (filter (\<lambda>(k, r). push_succeeds r) (clients m))
   \<and> list_all (\<lambda>(k, r). received r e) (clients (fst (broadcast m e)))
   \<and> map fst (fst (snd (broadcast m e))) = map fst (filter (\<lambda>(k, r). \<not> push_succeeds r) (clients m))
   \<and> list_all (\<lambda>(k, r). ended r) (fst (snd (broadcast m e)))
   \<and> snd (snd (broadcast m e)) = Inr ()"
proof -
  have k: "clients (fst (broadcast m e)) =
      map (\<lambda>(k, r). (k, fst (sendEvent r e))) (filter (\<lambda>(k, r). push_succeeds r) (clients m))"
    using broadcast_loop_kept [of e "clients m"] by (simp add: broadcast_def split_beta)
  have r: "fst (snd (broadcast m e)) = snd (broadcast_loop e (clients m))"
    by (simp add: broadcast_def split_beta)
  have a: "map fst (clients (fst (broadcast m e))) =
      map fst (filter (\<lambda>(k, r). push_succeeds r) (clients m))"
    unfolding k by (induction "clients m") (auto simp: split_beta)
  have b: "list_all (\<lambda>(k, r). received r e) (clients (fst (broadcast m e)))"
    unfolding k by (auto simp: list_all_iff received_after_push)
  have c: "list_all (\<lambda>(k, r). ended r) (fst (snd (broadcast m e)))"
    unfolding r using broadcast_loop_removed [of e "clients m"]
    by (auto simp: list_all_iff)
  have d: "map fst (fst (snd (broadcast m e))) =
      map fst (filter (\<lambda>(k, r). \<not> push_succeeds r) (clients m))"
    unfolding r using broadcast_loop_removed [of e "clients m"] by simp
  have f: "snd (snd (broadcast m e)) = Inr ()"
    by (simp add: broadcast_def split_beta)
  show ?thesis
    using k a b c d f by simp
qed

theorem broadcast_delivers_and_prunes_witness:
  "getClientIds (fst (broadcast three_subscribers (MessageEvent (JString ''hi'') 7))) = [''a'', ''c'']
   \<and> list_all (\<lambda>(k, r). received r (MessageEvent (JString ''hi'') 7))
        (clients (fst (broadcast three_subscribers (MessageEvent (JString ''hi'') 7))))
   \<and> map fst (fst (snd (broadcast three_subscribers (MessageEvent (JString ''hi'') 7)))) = [''b'']
   \<and> snd (snd (broadcast three_subscribers (MessageEvent (JString ''hi'') 7))) = Inr ()"
  using broadcast_delivers_and_prunes [of three_subscribers "MessageEvent (JString ''hi'') 7"]
  by (simp add: three_subscribers_def fresh_response_def push_succeeds_def getClientIds_def
        sendEvent_def res_write_def received_def)

end
